theory Spec2Isabelle
  imports Main "HOL-Library.Sublist" "HOL-Library.List_Lexorder" "HOL-Library.Char_ord"
begin

section \<open>Python values, strings and dictionaries\<close>

text \<open>
  The values that occur as query values, credentials and configuration entries.
  \<open>PNone\<close> is Python's \<open>None\<close>.
\<close>

datatype pyval = PStr string | PInt int | PBool bool | PNone

text \<open>
  A Python \<open>dict\<close> with string keys is an association list in insertion order; a
  well-formed dictionary has pairwise different keys.
\<close>

type_synonym 'v dict = "(string \<times> 'v) list"

definition is_dict :: "'v dict \<Rightarrow> bool" where
  "is_dict d = distinct (map fst d)"

text \<open>\<open>dict(pairs)\<close>: a later pair with the same key replaces the value of an earlier one.\<close>

fun dict_setitem :: "string \<Rightarrow> 'v \<Rightarrow> 'v dict \<Rightarrow> 'v dict" where
  "dict_setitem k v [] = [(k, v)]"
| "dict_setitem k v (p # ps) = (if fst p = k then (k, v) # ps else p # dict_setitem k v ps)"

fun dict_from_pairs :: "(string \<times> 'v) list \<Rightarrow> 'v dict \<Rightarrow> 'v dict" where
  "dict_from_pairs [] d = d"
| "dict_from_pairs ((k, v) # ps) d = dict_from_pairs ps (dict_setitem k v d)"

definition py_dict :: "(string \<times> 'v) list \<Rightarrow> 'v dict" where
  "py_dict pairs = dict_from_pairs pairs []"

text \<open>\<open>key in d\<close>, and whether one of several keys is in \<open>d\<close>.\<close>

definition has_key :: "'v dict \<Rightarrow> string \<Rightarrow> bool" where
  "has_key d k = (map_of d k \<noteq> None)"

fun any_key :: "'v dict \<Rightarrow> string list \<Rightarrow> bool" where
  "any_key d [] = False"
| "any_key d (k # ks) = (has_key d k \<or> any_key d ks)"

text \<open>\<open>str(value)\<close>.\<close>

definition digit_char :: "nat \<Rightarrow> char" where
  "digit_char d = ''0123456789'' ! d"

fun nat_digits :: "nat \<Rightarrow> string" where
  "nat_digits n = (if n < 10 then [digit_char n] else nat_digits (n div 10) @ [digit_char (n mod 10)])"

declare nat_digits.simps [simp del]

definition int_str :: "int \<Rightarrow> string" where
  "int_str i = (if i < 0 then ''-'' @ nat_digits (nat (- i)) else nat_digits (nat i))"

fun py_str :: "pyval \<Rightarrow> string" where
  "py_str (PStr s) = s"
| "py_str (PInt i) = int_str i"
| "py_str (PBool b) = (if b then ''True'' else ''False'')"
| "py_str PNone = ''None''"

text \<open>\<open>sep.join(l)\<close>.\<close>

fun str_join :: "string \<Rightarrow> string list \<Rightarrow> string" where
  "str_join sep [] = []"
| "str_join sep [x] = x"
| "str_join sep (x # y # ys) = x @ sep @ str_join sep (y # ys)"

text \<open>\<open>needle in haystack\<close> on strings: the needle occurs as a contiguous substring.\<close>

fun starts_with :: "string \<Rightarrow> string \<Rightarrow> bool" where
  "starts_with [] s = True"
| "starts_with (p # ps) [] = False"
| "starts_with (p # ps) (c # cs) = (p = c \<and> starts_with ps cs)"

fun str_contains :: "string \<Rightarrow> string \<Rightarrow> bool" where
  "str_contains needle [] = (needle = [])"
| "str_contains needle (c # cs) = (starts_with needle (c # cs) \<or> str_contains needle cs)"

section \<open>The client object\<close>

datatype credentials = Credentials pyval pyval

record client =
  ACCESS_KEY_ID :: pyval
  SECRET_ACCESS_KEY :: pyval
  CREDENTIALS :: credentials
  SERVICE_NAME :: string
  REGION_NAME :: "string option"
  API_VERSION :: "string option"
  BASE_PATH :: "string option"
  USE_SSL :: bool

definition API_DOMAIN :: string where
  "API_DOMAIN = ''api.cloud.nifty.com''"

subsection \<open>Construction\<close>

text \<open>
  What the constructor finds at \<open>config_file\<close>: no regular file, a file that YAML loads
  as \<open>None\<close> (an empty document), or a file that loads as a mapping with string keys.
  These are the documents the constructor is written for; a file that cannot be read or
  that holds a scalar or a sequence is outside this type.
\<close>

datatype config_file = NoFile | YamlNone | YamlMap "pyval dict"

text \<open>
  Lines 39-47. An attribute is set from the file only when the file exists, its content
  is not \<open>None\<close> and the key is in it; otherwise the instance has no such attribute
  (\<open>None\<close> of the option type: \<open>hasattr\<close> is false).
\<close>

fun attr_from_file :: "config_file \<Rightarrow> string \<Rightarrow> pyval option" where
  "attr_from_file NoFile name = None"
| "attr_from_file YamlNone name = None"
| "attr_from_file (YamlMap config) name =
     (case map_of config name of Some v \<Rightarrow> Some v | None \<Rightarrow> None)"

text \<open>
  \<open>os.getenv(name, default)\<close> on an environment \<open>env\<close>, the dictionary of the
  environment variables that are set.
\<close>

definition getenv :: "string dict \<Rightarrow> string \<Rightarrow> pyval \<Rightarrow> pyval" where
  "getenv env name dflt = (case map_of env name of Some s \<Rightarrow> PStr s | None \<Rightarrow> dflt)"

text \<open>Lines 49-58: the environment variable, when set, replaces the value from the file.\<close>

fun attr_from_env :: "string dict \<Rightarrow> string \<Rightarrow> pyval option \<Rightarrow> pyval" where
  "attr_from_env env name (Some current) = getenv env name current"
| "attr_from_env env name None = getenv env name PNone"

text \<open>Lines 60-64: an argument that is not \<open>None\<close> replaces the value found so far.\<close>

definition attr_from_arg :: "pyval \<Rightarrow> pyval \<Rightarrow> pyval" where
  "attr_from_arg arg current = (if arg \<noteq> PNone then arg else current)"

text \<open>
  \<open>NifCloudClient.__init__\<close>. The file system and the process environment are inputs:
  \<open>cf\<close> is what is found at \<open>config_file\<close>, \<open>env\<close> the environment variables.
\<close>

definition init ::
  "config_file \<Rightarrow> string dict \<Rightarrow> string \<Rightarrow> string option \<Rightarrow> string option \<Rightarrow>
   string option \<Rightarrow> bool \<Rightarrow> pyval \<Rightarrow> pyval \<Rightarrow> client" where
  "init cf env service_name region_name api_version base_path use_ssl
        access_key_id secret_access_key =
     (let aki = attr_from_arg access_key_id
                  (attr_from_env env ''ACCESS_KEY_ID'' (attr_from_file cf ''ACCESS_KEY_ID''));
          sak = attr_from_arg secret_access_key
                  (attr_from_env env ''SECRET_ACCESS_KEY'' (attr_from_file cf ''SECRET_ACCESS_KEY''))
      in \<lparr> ACCESS_KEY_ID = aki, SECRET_ACCESS_KEY = sak, CREDENTIALS = Credentials aki sak,
           SERVICE_NAME = service_name, REGION_NAME = region_name, API_VERSION = api_version,
           BASE_PATH = base_path, USE_SSL = use_ssl \<rparr>)"

subsection \<open>The endpoint URL\<close>

text \<open>
  \<open>NifCloudClient._make_endpoint_url\<close>, lines 132-150. An optional string is false
  when it is \<open>None\<close> or empty.
\<close>

definition make_endpoint_url :: "client \<Rightarrow> string option \<Rightarrow> string" where
  "make_endpoint_url c path =
     (let protocol = (if USE_SSL c then ''https'' else ''http'');
          service = (if SERVICE_NAME c \<noteq> [] then SERVICE_NAME c @ ''.'' else []);
          region = (case REGION_NAME c of
                      Some r \<Rightarrow> (if r \<noteq> [] then r @ ''.'' else [])
                    | None \<Rightarrow> []);
          path_param = (case BASE_PATH c of
                          Some b \<Rightarrow> (if b \<noteq> [] then b @ ''/'' else [])
                        | None \<Rightarrow> []);
          path_param = (case API_VERSION c of
                          Some v \<Rightarrow> (if v \<noteq> [] then path_param @ v @ ''/'' else path_param)
                        | None \<Rightarrow> path_param);
          path_param = (case path of
                          Some p \<Rightarrow> (if p \<noteq> [] then path_param @ p @ ''/'' else path_param)
                        | None \<Rightarrow> path_param)
      in protocol @ ''://'' @ service @ region @ API_DOMAIN @ ''/'' @ path_param)"

section \<open>Requests\<close>

text \<open>
  The error kinds. \<open>ConfigurationError\<close> and \<open>UnsupportedMethodError\<close> are the kinds the
  specification names; the client defines and raises neither. \<open>PyException\<close> is an
  exception of the given class that a library call raised and the client lets through.
\<close>

datatype error = ConfigurationError | UnsupportedMethodError | PyException string

text \<open>The fields of botocore's \<open>AWSRequest\<close> that the client reads and writes.\<close>

record aws_request =
  req_method :: string
  req_url :: string
  req_data :: "pyval dict"
  req_headers :: "string dict"

subsection \<open>Query rendering\<close>

text \<open>
  Lines 101-104, the loop \<open>for key in sorted(query)\<close>: \<open>l\<close> is the list built so far.
  \<open>query[key]\<close> raises \<open>KeyError\<close> for a key that is not in the dictionary.
\<close>

fun render_pairs :: "pyval dict \<Rightarrow> string list \<Rightarrow> string list \<Rightarrow> error + string list" where
  "render_pairs query [] l = Inr l"
| "render_pairs query (key # keys) l =
     (case map_of query key of
        None \<Rightarrow> Inl (PyException ''KeyError'')
      | Some v \<Rightarrow> render_pairs query keys (l @ [key @ ''='' @ py_str v]))"

text \<open>
  Lines 93-109: the defaults for \<open>query\<close> and \<open>headers\<close>, the query string of a GET, and
  the request object handed to the signer.
\<close>

definition build_request ::
  "client \<Rightarrow> string \<Rightarrow> string option \<Rightarrow> pyval dict option \<Rightarrow> string dict option \<Rightarrow>
   error + aws_request" where
  "build_request c method path query headers =
     (let query = (case query of None \<Rightarrow> [] | Some q \<Rightarrow> q);
          headers = (case headers of None \<Rightarrow> [] | Some h \<Rightarrow> h)
      in if method = ''GET''
         then (case render_pairs query (sort (map fst query)) [] of
                 Inl e \<Rightarrow> Inl e
               | Inr l \<Rightarrow>
                   Inr \<lparr> req_method = method,
                         req_url = make_endpoint_url c path @ (''?'' @ str_join ''&'' l),
                         req_data = [], req_headers = headers \<rparr>)
         else Inr \<lparr> req_method = method, req_url = make_endpoint_url c path @ [],
                    req_data = query, req_headers = headers \<rparr>)"

subsection \<open>Signature version\<close>

text \<open>
  \<open>NifCloudClient._get_signature_version\<close>, lines 152-172. The parameter \<open>parse_query\<close>
  stands for the standard library's \<open>parse_qsl(urlsplit(url).query)\<close>: the list of
  name/value pairs of the URL's query string, or the class of the exception raised.
\<close>

definition get_signature_version ::
  "(string \<Rightarrow> string + (string \<times> string) list) \<Rightarrow> client \<Rightarrow> aws_request \<Rightarrow> string \<Rightarrow>
   error + pyval" where
  "get_signature_version parse_query c request url =
     (let params = req_data request in
      case parse_query url of
        Inl e \<Rightarrow> Inl (PyException e)
      | Inr pairs \<Rightarrow>
          (let query = py_dict pairs in
           case map_of query ''SignatureVersion'' of
             Some v \<Rightarrow> Inr (PStr v)
           | None \<Rightarrow>
               (case map_of params ''SignatureVersion'' of
                  Some v \<Rightarrow> Inr v
                | None \<Rightarrow>
                    if str_contains ''computing'' (SERVICE_NAME c) then Inr (PStr ''2'')
                    else Inr (PStr ''4''))))"

subsection \<open>Signer dispatch and transport\<close>

text \<open>
  The four signer objects of \<open>py_nifcloud.auth\<close>, with the arguments the client
  constructs them from.
\<close>

datatype signer =
    NifCloudSigV4Auth credentials string "string option"
  | NifCloudSigV2Auth credentials
  | NifCloudSigV1Auth credentials
  | NifCloudSigV0Auth credentials

text \<open>Lines 112-124: the signer chosen for a signature version.\<close>

definition select_signer :: "client \<Rightarrow> pyval \<Rightarrow> signer" where
  "select_signer c signature_version =
     (if signature_version = PStr ''4''
      then NifCloudSigV4Auth (CREDENTIALS c) (SERVICE_NAME c) (REGION_NAME c)
      else if signature_version = PStr ''2'' then NifCloudSigV2Auth (CREDENTIALS c)
      else if signature_version = PStr ''1'' then NifCloudSigV1Auth (CREDENTIALS c)
      else if signature_version = PStr ''0'' then NifCloudSigV0Auth (CREDENTIALS c)
      else NifCloudSigV2Auth (CREDENTIALS c))"

text \<open>
  The call of the \<open>requests\<close> library that the client makes: URL, second positional
  argument, headers and the keyword arguments passed through.
\<close>

datatype transport_call =
    RequestsGet string "pyval dict" "string dict" "pyval dict"
  | RequestsPost string "pyval dict" "string dict" "pyval dict"

text \<open>
  What \<open>request\<close> returns: the response of a transport call, or \<open>None\<close> when the function
  ends without a \<open>return\<close>.
\<close>

datatype result = Response transport_call | PyNone

text \<open>
  Lines 126-130. \<open>requests.get(url, params=None, **kwargs)\<close> is called with the URL and
  the data by position and the headers by keyword, \<open>requests.post(url, data=None,
  json=None, **kwargs)\<close> likewise: a keyword argument of the same name among \<open>kwargs\<close>
  makes the call raise \<open>TypeError\<close> before the transport runs.
\<close>

definition send :: "aws_request \<Rightarrow> pyval dict \<Rightarrow> error + result" where
  "send request kwargs =
     (if req_method request = ''GET''
      then (if any_key kwargs [''url'', ''params'', ''headers'']
            then Inl (PyException ''TypeError'')
            else Inr (Response (RequestsGet (req_url request) (req_data request)
                                  (req_headers request) kwargs)))
      else if req_method request = ''POST''
      then (if any_key kwargs [''url'', ''data'', ''headers'']
            then Inl (PyException ''TypeError'')
            else Inr (Response (RequestsPost (req_url request) (req_data request)
                                  (req_headers request) kwargs)))
      else Inr PyNone)"

text \<open>
  \<open>NifCloudClient.request\<close>, lines 82-130. The parameter \<open>add_auth\<close> stands for the
  \<open>add_auth\<close> method of the signer objects: the request after signing, or the class of
  the exception raised.
\<close>

definition request ::
  "(string \<Rightarrow> string + (string \<times> string) list) \<Rightarrow>
   (signer \<Rightarrow> aws_request \<Rightarrow> string + aws_request) \<Rightarrow>
   client \<Rightarrow> string \<Rightarrow> string option \<Rightarrow> pyval dict option \<Rightarrow> string dict option \<Rightarrow>
   pyval dict \<Rightarrow> error + result" where
  "request parse_query add_auth c method path query headers kwargs =
     (case build_request c method path query headers of
        Inl e \<Rightarrow> Inl e
      | Inr req \<Rightarrow>
          (case get_signature_version parse_query c req (req_url req) of
             Inl e \<Rightarrow> Inl e
           | Inr signature_version \<Rightarrow>
               (case add_auth (select_signer c signature_version) req of
                  Inl e \<Rightarrow> Inl (PyException e)
                | Inr signed \<Rightarrow> send signed kwargs)))"

text \<open>
  \<open>NifCloudClient.get\<close> and \<open>NifCloudClient.post\<close>, lines 76-80. They call \<open>request\<close>
  with \<open>method\<close>, \<open>path\<close>, \<open>query\<close> and \<open>headers\<close> by keyword and \<open>**kwargs\<close>: a
  keyword argument of one of these names among \<open>kwargs\<close> makes the call raise \<open>TypeError\<close>.
\<close>

definition get ::
  "(string \<Rightarrow> string + (string \<times> string) list) \<Rightarrow>
   (signer \<Rightarrow> aws_request \<Rightarrow> string + aws_request) \<Rightarrow>
   client \<Rightarrow> string option \<Rightarrow> pyval dict option \<Rightarrow> string dict option \<Rightarrow>
   pyval dict \<Rightarrow> error + result" where
  "get parse_query add_auth c path query headers kwargs =
     (if any_key kwargs [''method'', ''path'', ''query'', ''headers'']
      then Inl (PyException ''TypeError'')
      else request parse_query add_auth c ''GET'' path query headers kwargs)"

definition post ::
  "(string \<Rightarrow> string + (string \<times> string) list) \<Rightarrow>
   (signer \<Rightarrow> aws_request \<Rightarrow> string + aws_request) \<Rightarrow>
   client \<Rightarrow> string option \<Rightarrow> pyval dict option \<Rightarrow> string dict option \<Rightarrow>
   pyval dict \<Rightarrow> error + result" where
  "post parse_query add_auth c path query headers kwargs =
     (if any_key kwargs [''method'', ''path'', ''query'', ''headers'']
      then Inl (PyException ''TypeError'')
      else request parse_query add_auth c ''POST'' path query headers kwargs)"

section \<open>The standard library's URL parsing\<close>

text \<open>
  Strings are the UTF-8 bytes of Python's strings.

  \<open>urlsplit(url).query\<close> for the URLs the client builds, which start with \<open>http://\<close> or
  \<open>https://\<close>. Tab, carriage return and line feed are removed from the URL. The host is
  the text after \<open>//\<close> up to the first \<open>/\<close>, \<open>?\<close> or \<open>#\<close>; a host with one kind of bracket
  but not the other raises \<open>ValueError\<close>. The query is the text after the first \<open>?\<close> of
  the rest, up to the first \<open>#\<close>. (The library also checks the address between a pair of
  brackets and a host that is not ASCII; for such hosts this function is not exact.)
\<close>

definition unsafe_url_char :: "char \<Rightarrow> bool" where
  "unsafe_url_char ch = (ch = CHR 0x09 \<or> ch = CHR 0x0A \<or> ch = CHR 0x0D)"

definition netloc_end :: "char \<Rightarrow> bool" where
  "netloc_end ch = (ch = CHR ''/'' \<or> ch = CHR ''?'' \<or> ch = CHR ''#'')"

definition url_after_scheme :: "string \<Rightarrow> string" where
  "url_after_scheme url =
     drop 2 (drop 1 (dropWhile (\<lambda>ch. ch \<noteq> CHR '':'')
                       (filter (\<lambda>ch. \<not> unsafe_url_char ch) url)))"

definition url_netloc :: "string \<Rightarrow> string" where
  "url_netloc url = takeWhile (\<lambda>ch. \<not> netloc_end ch) (url_after_scheme url)"

definition urlsplit_query :: "string \<Rightarrow> string + string" where
  "urlsplit_query url =
     (let netloc = url_netloc url;
          url = dropWhile (\<lambda>ch. \<not> netloc_end ch) (url_after_scheme url)
      in if (CHR ''['' \<in> set netloc) \<noteq> (CHR '']'' \<in> set netloc)
         then Inl ''ValueError''
         else Inr (drop 1 (dropWhile (\<lambda>ch. ch \<noteq> CHR ''?'')
                             (takeWhile (\<lambda>ch. ch \<noteq> CHR ''#'') url))))"

text \<open>\<open>s.split(sep)\<close> for a separator of one character.\<close>

fun split_on :: "char \<Rightarrow> string \<Rightarrow> string list" where
  "split_on sep [] = [[]]"
| "split_on sep (ch # s) =
     (if ch = sep then [] # split_on sep s
      else (case split_on sep s of [] \<Rightarrow> [[ch]] | w # ws \<Rightarrow> (ch # w) # ws))"

text \<open>The value of a hexadecimal digit.\<close>

definition hex_val :: "char \<Rightarrow> nat option" where
  "hex_val ch =
     (let n = (of_char ch :: nat)
      in if 48 \<le> n \<and> n \<le> 57 then Some (n - 48)
         else if 65 \<le> n \<and> n \<le> 70 then Some (n - 55)
         else if 97 \<le> n \<and> n \<le> 102 then Some (n - 87)
         else None)"

text \<open>
  \<open>unquote_to_bytes\<close>: a \<open>%\<close> followed by two hexadecimal digits is the byte they
  denote, any other character stands for itself.
\<close>

fun unquote_to_bytes :: "string \<Rightarrow> string" where
  "unquote_to_bytes [] = []"
| "unquote_to_bytes (ch # s) =
     (if ch = CHR ''%''
      then (case s of
              a # b # rest \<Rightarrow>
                (case (hex_val a, hex_val b) of
                   (Some x, Some y) \<Rightarrow> char_of (16 * x + y) # unquote_to_bytes rest
                 | _ \<Rightarrow> ch # unquote_to_bytes s)
            | _ \<Rightarrow> ch # unquote_to_bytes s)
      else ch # unquote_to_bytes s)"

text \<open>
  Decoding bytes as UTF-8 with the error handler \<open>replace\<close>. \<open>utf8_unit ch s\<close> looks at
  the sequence that starts with the byte \<open>ch\<close>, followed by \<open>s\<close>: whether it is a
  well-formed character, and how many bytes of \<open>s\<close> belong to it (for an ill-formed
  sequence, to the part that is replaced by one U+FFFD).
\<close>

definition is_continuation :: "char \<Rightarrow> bool" where
  "is_continuation ch = (128 \<le> (of_char ch :: nat) \<and> (of_char ch :: nat) < 192)"

definition second_byte_ok :: "char \<Rightarrow> char \<Rightarrow> bool" where
  "second_byte_ok ch c2 =
     (let b = (of_char ch :: nat); b2 = (of_char c2 :: nat)
      in is_continuation c2 \<and>
         (if b = 224 then 160 \<le> b2
          else if b = 237 then b2 < 160
          else if b = 240 then 144 \<le> b2
          else if b = 244 then b2 < 144
          else True))"

definition utf8_unit :: "char \<Rightarrow> string \<Rightarrow> bool \<times> nat" where
  "utf8_unit ch s =
     (let b = (of_char ch :: nat)
      in if b < 128 then (True, 0)
         else if b < 194 then (False, 0)
         else if b < 224 then
           (case s of
              c2 # _ \<Rightarrow> (if is_continuation c2 then (True, 1) else (False, 0))
            | [] \<Rightarrow> (False, 0))
         else if b < 240 then
           (case s of
              c2 # c3 # _ \<Rightarrow>
                (if \<not> second_byte_ok ch c2 then (False, 0)
                 else if \<not> is_continuation c3 then (False, 1)
                 else (True, 2))
            | [c2] \<Rightarrow> (if second_byte_ok ch c2 then (False, 1) else (False, 0))
            | [] \<Rightarrow> (False, 0))
         else if b < 245 then
           (case s of
              c2 # c3 # c4 # _ \<Rightarrow>
                (if \<not> second_byte_ok ch c2 then (False, 0)
                 else if \<not> is_continuation c3 then (False, 1)
                 else if \<not> is_continuation c4 then (False, 2)
                 else (True, 3))
            | [c2, c3] \<Rightarrow>
                (if \<not> second_byte_ok ch c2 then (False, 0)
                 else if \<not> is_continuation c3 then (False, 1)
                 else (False, 2))
            | [c2] \<Rightarrow> (if second_byte_ok ch c2 then (False, 1) else (False, 0))
            | [] \<Rightarrow> (False, 0))
         else (False, 0))"

fun utf8_replace :: "string \<Rightarrow> string" where
  "utf8_replace [] = []"
| "utf8_replace (ch # s) =
     (case utf8_unit ch s of
        (valid, n) \<Rightarrow>
          (if valid then ch # take n s else [CHR 0xEF, CHR 0xBF, CHR 0xBD]) @
          utf8_replace (drop n s))"

text \<open>\<open>unquote(s)\<close> and \<open>unquote(s.replace('+', ' '))\<close>.\<close>

definition unquote :: "string \<Rightarrow> string" where
  "unquote s = utf8_replace (unquote_to_bytes s)"

definition unquote_plus :: "string \<Rightarrow> string" where
  "unquote_plus s = unquote (map (\<lambda>ch. if ch = CHR ''+'' then CHR '' '' else ch) s)"

text \<open>
  \<open>parse_qsl(qs)\<close> with its default arguments: the fields are separated by \<open>&\<close>; a field
  without \<open>=\<close> or with an empty value is dropped; name and value are what is before and
  after the first \<open>=\<close>, decoded. The decoding \<open>unq\<close> is a parameter.
\<close>

fun parse_qsl_fields :: "(string \<Rightarrow> string) \<Rightarrow> string list \<Rightarrow> (string \<times> string) list" where
  "parse_qsl_fields unq [] = []"
| "parse_qsl_fields unq (name_value # rest_fields) =
     (let name = takeWhile (\<lambda>ch. ch \<noteq> CHR ''='') name_value;
          rest = dropWhile (\<lambda>ch. ch \<noteq> CHR ''='') name_value
      in if rest = [] \<or> tl rest = [] then parse_qsl_fields unq rest_fields
         else (unq name, unq (tl rest)) # parse_qsl_fields unq rest_fields)"

definition parse_qsl :: "(string \<Rightarrow> string) \<Rightarrow> string \<Rightarrow> (string \<times> string) list" where
  "parse_qsl unq qs = parse_qsl_fields unq (split_on CHR ''&'' qs)"

text \<open>
  \<open>parse_qsl(urlsplit(url).query)\<close>, for a function \<open>split\<close> that gives the query string
  of a URL or the class of the exception raised, and a decoding \<open>unq\<close> of names and
  values.
\<close>

definition parse_url_query ::
  "(string \<Rightarrow> string + string) \<Rightarrow> (string \<Rightarrow> string) \<Rightarrow> string \<Rightarrow>
   string + (string \<times> string) list" where
  "parse_url_query split unq url =
     (case split url of Inl e \<Rightarrow> Inl e | Inr qs \<Rightarrow> Inr (parse_qsl unq qs))"

definition py_parse_query :: "string \<Rightarrow> string + (string \<times> string) list" where
  "py_parse_query = parse_url_query urlsplit_query unquote_plus"







section \<open>A signer for concrete runs\<close>

text \<open>
  The module \<open>py_nifcloud.auth\<close> is not among the sources. For concrete runs,
  \<open>header_signer\<close> is a signer that writes the variant it was constructed as into a
  header and leaves the request as it is otherwise.
\<close>

fun signer_name :: "signer \<Rightarrow> string" where
  "signer_name (NifCloudSigV4Auth cr service region) = ''NifCloudSigV4Auth''"
| "signer_name (NifCloudSigV2Auth cr) = ''NifCloudSigV2Auth''"
| "signer_name (NifCloudSigV1Auth cr) = ''NifCloudSigV1Auth''"
| "signer_name (NifCloudSigV0Auth cr) = ''NifCloudSigV0Auth''"

definition header_signer :: "signer \<Rightarrow> aws_request \<Rightarrow> string + aws_request" where
  "header_signer s req =
     Inr (req\<lparr> req_headers := req_headers req @ [(''X-Signed-By'', signer_name s)] \<rparr>)"

text \<open>Signers that leave the method, or the URL, of the request as it is.\<close>

definition keeps_method :: "(signer \<Rightarrow> aws_request \<Rightarrow> string + aws_request) \<Rightarrow> bool" where
  "keeps_method add_auth =
     (\<forall>s req signed. add_auth s req = Inr signed \<longrightarrow> req_method signed = req_method req)"

definition keeps_url :: "(signer \<Rightarrow> aws_request \<Rightarrow> string + aws_request) \<Rightarrow> bool" where
  "keeps_url add_auth =
     (\<forall>s req signed. add_auth s req = Inr signed \<longrightarrow> req_url signed = req_url req)"

section \<open>The endpoint URL in the words of the specification\<close>

text \<open>The components that are present: neither absent nor empty.\<close>

fun present :: "string option list \<Rightarrow> string list" where
  "present [] = []"
| "present (None # xs) = present xs"
| "present (Some s # xs) = (if s = [] then present xs else s # present xs)"

text \<open>
  Protocol, \<open>://\<close>, the service and region names each followed by a dot, the API domain,
  \<open>/\<close>, and base path, API version and path each followed by a slash.
\<close>

definition endpoint_spec ::
  "bool \<Rightarrow> string \<Rightarrow> string option \<Rightarrow> string option \<Rightarrow> string option \<Rightarrow> string option \<Rightarrow>
   string" where
  "endpoint_spec use_ssl service_name region_name api_version base_path path =
     (if use_ssl then ''https'' else ''http'') @ ''://'' @
     concat (map (\<lambda>s. s @ ''.'') (present [Some service_name, region_name])) @
     ''api.cloud.nifty.com'' @ ''/'' @
     concat (map (\<lambda>s. s @ ''/'') (present [base_path, api_version, path]))"

section \<open>Properties of the helper functions\<close>






text \<open>The loop over the sorted keys never raises \<open>KeyError\<close>: every key is in the dictionary.\<close>

lemma render_pairs_keys:
  "set keys \<subseteq> fst ` set query \<Longrightarrow>
   render_pairs query keys l = Inr (l @ map (\<lambda>k. k @ ''='' @ py_str (the (map_of query k))) keys)"
proof (induction keys arbitrary: l)
  case Nil
  then show ?case by simp
next
  case (Cons key keys)
  from Cons.prems have "key \<in> fst ` set query" by simp
  then obtain v where v: "map_of query key = Some v"
    by (metis domIff dom_map_of_conv_image_fst not_Some_eq)
  from Cons.prems have "set keys \<subseteq> fst ` set query" by simp
  then show ?case using v by (simp add: Cons.IH)
qed

lemma sort_keys_eq: "distinct (map fst q) \<Longrightarrow> sort (map fst q) = map fst (sort_key fst q)"
  by (rule sorted_distinct_set_unique) (simp_all add: distinct_map)

lemma sorted_items:
  assumes "distinct (map fst q)"
  shows "map (\<lambda>k. k @ ''='' @ py_str (the (map_of q k))) (sort (map fst q)) =
         map (\<lambda>(k, v). k @ ''='' @ py_str v) (sort_key fst q)"
proof -
  have "\<And>k v. (k, v) \<in> set (sort_key fst q) \<Longrightarrow> map_of q k = Some v"
    using assms by simp
  then show ?thesis
    unfolding sort_keys_eq [OF assms] by (auto simp: comp_def)
qed

text \<open>The request that a GET builds from a dictionary.\<close>

lemma build_request_get:
  assumes "is_dict q"
  shows "build_request c ''GET'' path (Some q) headers =
           Inr \<lparr> req_method = ''GET'',
                 req_url = make_endpoint_url c path @ ''?'' @
                   str_join ''&'' (map (\<lambda>(k, v). k @ ''='' @ py_str v) (sort_key fst q)),
                 req_data = [],
                 req_headers = (case headers of None \<Rightarrow> [] | Some h \<Rightarrow> h) \<rparr>"
proof -
  have d: "distinct (map fst q)" using assms by (simp add: is_dict_def)
  have "render_pairs q (sort (map fst q)) [] =
          Inr (map (\<lambda>(k, v). k @ ''='' @ py_str v) (sort_key fst q))"
    using render_pairs_keys [of "sort (map fst q)" q "[]"] sorted_items [OF d] by simp
  then show ?thesis by (simp add: build_request_def)
qed

lemma strict_sorted_keys:
  assumes "is_dict q"
  shows "sorted_wrt (<) (map fst (sort_key fst q))"
proof -
  have "distinct (map fst (sort_key fst q))"
    using assms by (simp add: is_dict_def distinct_map)
  then show ?thesis by (simp add: strict_sorted_iff)
qed

text \<open>A GET request is built for every query, and its URL has the \<open>?\<close> suffix.\<close>

lemma build_request_total:
  "\<exists>l. build_request c ''GET'' path query headers =
         Inr \<lparr> req_method = ''GET'', req_url = make_endpoint_url c path @ ''?'' @ str_join ''&'' l,
               req_data = [], req_headers = (case headers of None \<Rightarrow> [] | Some h \<Rightarrow> h) \<rparr>"
proof -
  define q where "q = (case query of None \<Rightarrow> [] | Some q \<Rightarrow> q)"
  define l where "l = map (\<lambda>k. k @ ''='' @ py_str (the (map_of q k))) (sort (map fst q))"
  have "render_pairs q (sort (map fst q)) [] = Inr ([] @ l)"
    unfolding l_def by (rule render_pairs_keys) simp
  then have "build_request c ''GET'' path query headers =
         Inr \<lparr> req_method = ''GET'', req_url = make_endpoint_url c path @ ''?'' @ str_join ''&'' l,
               req_data = [], req_headers = (case headers of None \<Rightarrow> [] | Some h \<Rightarrow> h) \<rparr>"
    by (simp add: build_request_def q_def Let_def)
  then show ?thesis by blast
qed

text \<open>Every joined string occurs in the result of \<open>join\<close> as it is.\<close>

lemma str_join_member:
  "x \<in> set xs \<Longrightarrow> \<exists>pre post. str_join sep xs = pre @ x @ post"
proof (induction sep xs rule: str_join.induct)
  case (1 sep)
  then show ?case by simp
next
  case (2 sep y)
  then have "str_join sep [y] = [] @ x @ []" by simp
  then show ?case by blast
next
  case (3 sep y z zs)
  show ?case
  proof (cases "x = y")
    case True
    then have "str_join sep (y # z # zs) = [] @ x @ (sep @ str_join sep (z # zs))" by simp
    then show ?thesis by blast
  next
    case False
    then have "x \<in> set (z # zs)" using "3.prems" by simp
    then obtain pre post where "str_join sep (z # zs) = pre @ x @ post"
      using "3.IH" by blast
    then have "str_join sep (y # z # zs) = (y @ sep @ pre) @ x @ post" by simp
    then show ?thesis by blast
  qed
qed

lemma header_signer_keeps_method: "keeps_method header_signer"
  by (auto simp: keeps_method_def header_signer_def)

lemma header_signer_keeps_url: "keeps_url header_signer"
  by (auto simp: keeps_url_def header_signer_def)

text \<open>
  The only errors of \<open>request\<close> are exceptions of the library calls: the client raises
  none of its own.
\<close>

lemma request_no_own_error:
  "request parse_query add_auth c method path query headers kwargs \<noteq> Inl ConfigurationError \<and>
   request parse_query add_auth c method path query headers kwargs \<noteq> Inl UnsupportedMethodError"
proof -
  obtain l where "build_request c ''GET'' path query headers = Inr l"
    using build_request_total [of c path query headers] by blast
  then have "\<exists>req. build_request c method path query headers = Inr req"
    by (cases "method = ''GET''") (simp_all add: build_request_def Let_def)
  then obtain req where b: "build_request c method path query headers = Inr req" by blast
  show ?thesis
    by (simp add: request_def b get_signature_version_def send_def Let_def
        split: sum.splits option.splits)
qed










section \<open>Signature version resolution\<close>





section \<open>Signer dispatch\<close>

text \<open>
  C2. A resolved signature version outside \<open>"0"\<close>, \<open>"1"\<close>, \<open>"2"\<close>, \<open>"4"\<close> selects the V2
  signer, and the request goes on as it does for \<open>"2"\<close>: the result is the transport
  step on what the V2 signer returns; the version is not rejected.
\<close>

theorem unknown_version_uses_v2_signer:
  assumes "signature_version \<notin> {PStr ''0'', PStr ''1'', PStr ''2'', PStr ''4''}"
    and "build_request c method path query headers = Inr req"
    and "get_signature_version parse_query c req (req_url req) = Inr signature_version"
  shows "select_signer c signature_version = NifCloudSigV2Auth (CREDENTIALS c)
         \<and> request parse_query add_auth c method path query headers kwargs =
             (case add_auth (NifCloudSigV2Auth (CREDENTIALS c)) req of
                Inl e \<Rightarrow> Inl (PyException e)
              | Inr signed \<Rightarrow> send signed kwargs)"
proof -
  have s: "select_signer c signature_version = NifCloudSigV2Auth (CREDENTIALS c)"
    using assms(1) by (simp add: select_signer_def)
  show ?thesis
    by (simp add: s request_def assms(2,3))
qed

text \<open>A POST whose body asks for version \<open>"99"\<close> is signed by the V2 signer and sent.\<close>

theorem unknown_version_uses_v2_signer_witness:
  "PStr ''99'' \<notin> {PStr ''0'', PStr ''1'', PStr ''2'', PStr ''4''}
   \<and> build_request (init NoFile [] ''computing'' None None None True PNone PNone) ''POST'' None
        (Some [(''SignatureVersion'', PStr ''99'')]) None =
       Inr \<lparr> req_method = ''POST'', req_url = ''https://computing.api.cloud.nifty.com/'',
             req_data = [(''SignatureVersion'', PStr ''99'')], req_headers = [] \<rparr>
   \<and> get_signature_version py_parse_query
        (init NoFile [] ''computing'' None None None True PNone PNone)
        \<lparr> req_method = ''POST'', req_url = ''https://computing.api.cloud.nifty.com/'',
          req_data = [(''SignatureVersion'', PStr ''99'')], req_headers = [] \<rparr>
        ''https://computing.api.cloud.nifty.com/'' = Inr (PStr ''99'')
   \<and> request py_parse_query header_signer
        (init NoFile [] ''computing'' None None None True PNone PNone) ''POST'' None
        (Some [(''SignatureVersion'', PStr ''99'')]) None [] =
       Inr (Response (RequestsPost ''https://computing.api.cloud.nifty.com/''
              [(''SignatureVersion'', PStr ''99'')]
              [(''X-Signed-By'', ''NifCloudSigV2Auth'')] []))"
proof -
  let ?c = "init NoFile [] ''computing'' None None None True PNone PNone"
  let ?req = "\<lparr> req_method = ''POST'', req_url = ''https://computing.api.cloud.nifty.com/'',
                 req_data = [(''SignatureVersion'', PStr ''99'')], req_headers = [] \<rparr>"
  have v: "PStr ''99'' \<notin> {PStr ''0'', PStr ''1'', PStr ''2'', PStr ''4''}" by simp
  have b: "build_request ?c ''POST'' None (Some [(''SignatureVersion'', PStr ''99'')]) None =
             Inr ?req"
    by code_simp
  have g: "get_signature_version py_parse_query ?c ?req (req_url ?req) = Inr (PStr ''99'')"
    by code_simp
  have a: "(case header_signer (NifCloudSigV2Auth (CREDENTIALS ?c)) ?req of
              Inl e \<Rightarrow> Inl (PyException e)
            | Inr signed \<Rightarrow> send signed []) =
           Inr (Response (RequestsPost ''https://computing.api.cloud.nifty.com/''
              [(''SignatureVersion'', PStr ''99'')]
              [(''X-Signed-By'', ''NifCloudSigV2Auth'')] []))"
    by code_simp
  from unknown_version_uses_v2_signer [OF v b g, of header_signer "[]"] a
  have "request py_parse_query header_signer ?c ''POST'' None
          (Some [(''SignatureVersion'', PStr ''99'')]) None [] =
        Inr (Response (RequestsPost ''https://computing.api.cloud.nifty.com/''
              [(''SignatureVersion'', PStr ''99'')]
              [(''X-Signed-By'', ''NifCloudSigV2Auth'')] []))"
    by simp
  then show ?thesis using v b g by simp
qed

section \<open>Query rendering\<close>

text \<open>
  C3. For a GET with a query dictionary, the URL is the endpoint URL, a \<open>?\<close>, and the
  items as \<open>key=value\<close> joined by \<open>&\<close>, with each value as \<open>str\<close> gives it; the items
  are all the items of the dictionary, their keys strictly ascending in the
  lexicographic order of the characters; the body is empty.
\<close>

theorem get_query_string_sorted:
  assumes "is_dict q"
  shows "build_request c ''GET'' path (Some q) headers =
           Inr \<lparr> req_method = ''GET'',
                 req_url = make_endpoint_url c path @ ''?'' @
                   str_join ''&'' (map (\<lambda>(k, v). k @ ''='' @ py_str v) (sort_key fst q)),
                 req_data = [],
                 req_headers = (case headers of None \<Rightarrow> [] | Some h \<Rightarrow> h) \<rparr>
         \<and> sorted_wrt (<) (map fst (sort_key fst q))
         \<and> set (sort_key fst q) = set q"
  using build_request_get [OF assms] strict_sorted_keys [OF assms] by simp

text \<open>The query \<open>{"b": "2", "a": 1}\<close> is rendered as \<open>?a=1&b=2\<close>.\<close>

theorem get_query_string_sorted_witness:
  "is_dict [(''b'', PStr ''2''), (''a'', PInt 1)]
   \<and> build_request (init NoFile [] ''computing'' None None None True PNone PNone) ''GET'' None
        (Some [(''b'', PStr ''2''), (''a'', PInt 1)]) None =
       Inr \<lparr> req_method = ''GET'',
             req_url = ''https://computing.api.cloud.nifty.com/?a=1&b=2'',
             req_data = [], req_headers = [] \<rparr>"
proof -
  have d: "is_dict [(''b'', PStr ''2''), (''a'', PInt 1)]"
    by (simp add: is_dict_def)
  have u: "make_endpoint_url (init NoFile [] ''computing'' None None None True PNone PNone) None @
             ''?'' @ str_join ''&'' (map (\<lambda>(k, v). k @ ''='' @ py_str v)
               (sort_key fst [(''b'', PStr ''2''), (''a'', PInt 1)])) =
           ''https://computing.api.cloud.nifty.com/?a=1&b=2''"
    by code_simp
  show ?thesis
    using get_query_string_sorted
      [OF d, of "init NoFile [] ''computing'' None None None True PNone PNone" None None] d
    unfolding u by simp
qed

text \<open>
  C7. For a POST, the request has the endpoint URL with nothing appended and the query
  mapping, as it is, as its body (the empty dictionary when the query is omitted); this
  is the request that the version resolver and the signer get when \<open>post\<close> is called
  (unless a keyword argument clashes with the arguments of \<open>request\<close>).
\<close>

theorem post_query_is_body:
  "build_request c ''POST'' path query headers =
     Inr \<lparr> req_method = ''POST'', req_url = make_endpoint_url c path,
           req_data = (case query of None \<Rightarrow> [] | Some q \<Rightarrow> q),
           req_headers = (case headers of None \<Rightarrow> [] | Some h \<Rightarrow> h) \<rparr>
   \<and> post parse_query add_auth c path query headers kwargs =
       (if any_key kwargs [''method'', ''path'', ''query'', ''headers'']
        then Inl (PyException ''TypeError'')
        else
          (case get_signature_version parse_query c
                  \<lparr> req_method = ''POST'', req_url = make_endpoint_url c path,
                    req_data = (case query of None \<Rightarrow> [] | Some q \<Rightarrow> q),
                    req_headers = (case headers of None \<Rightarrow> [] | Some h \<Rightarrow> h) \<rparr>
                  (make_endpoint_url c path) of
             Inl e \<Rightarrow> Inl e
           | Inr signature_version \<Rightarrow>
               (case add_auth (select_signer c signature_version)
                       \<lparr> req_method = ''POST'', req_url = make_endpoint_url c path,
                         req_data = (case query of None \<Rightarrow> [] | Some q \<Rightarrow> q),
                         req_headers = (case headers of None \<Rightarrow> [] | Some h \<Rightarrow> h) \<rparr> of
                  Inl e \<Rightarrow> Inl (PyException e)
                | Inr signed \<Rightarrow> send signed kwargs)))"
  by (simp add: build_request_def post_def request_def)

theorem post_query_is_body_witness:
  "build_request (init NoFile [] ''computing'' None None None True PNone PNone) ''POST''
     (Some ''instances'') (Some [(''b'', PStr ''2''), (''a'', PInt 1)]) None =
     Inr \<lparr> req_method = ''POST'',
           req_url = ''https://computing.api.cloud.nifty.com/instances/'',
           req_data = [(''b'', PStr ''2''), (''a'', PInt 1)], req_headers = [] \<rparr>"
proof -
  have u: "make_endpoint_url (init NoFile [] ''computing'' None None None True PNone PNone)
             (Some ''instances'') = ''https://computing.api.cloud.nifty.com/instances/''"
    by code_simp
  show ?thesis
    using post_query_is_body
      [of "init NoFile [] ''computing'' None None None True PNone PNone" "Some ''instances''"
          "Some [(''b'', PStr ''2''), (''a'', PInt 1)]" None]
    unfolding u by simp
qed

text \<open>
  C9. For a GET whose query is omitted or empty, the URL of the request is the endpoint
  URL followed by a bare \<open>?\<close>; for every GET the URL is the endpoint URL, a \<open>?\<close> and a
  suffix; and when the signer leaves URL and method as they are, the URL that \<open>get\<close>
  hands to the transport is the endpoint URL followed by the bare \<open>?\<close>.
\<close>

theorem get_empty_query_bare_question_mark:
  assumes "query = None \<or> query = Some []"
  shows "build_request c ''GET'' path query headers =
           Inr \<lparr> req_method = ''GET'', req_url = make_endpoint_url c path @ ''?'',
                 req_data = [], req_headers = (case headers of None \<Rightarrow> [] | Some h \<Rightarrow> h) \<rparr>
         \<and> (\<exists>req suffix. build_request c ''GET'' path any_query headers = Inr req \<and>
               req_url req = make_endpoint_url c path @ ''?'' @ suffix)
         \<and> (keeps_url add_auth \<and> keeps_method add_auth \<and>
             get parse_query add_auth c path query headers kwargs = Inr res \<longrightarrow>
             (\<exists>d h. res = Response (RequestsGet (make_endpoint_url c path @ ''?'') d h kwargs)))"
proof -
  have a: "build_request c ''GET'' path query headers =
           Inr \<lparr> req_method = ''GET'', req_url = make_endpoint_url c path @ ''?'',
                 req_data = [], req_headers = (case headers of None \<Rightarrow> [] | Some h \<Rightarrow> h) \<rparr>"
    using assms by (auto simp: build_request_def)
  have b: "\<exists>req suffix. build_request c ''GET'' path any_query headers = Inr req \<and>
               req_url req = make_endpoint_url c path @ ''?'' @ suffix"
    using build_request_total [of c path any_query headers] by auto
  have c: "\<exists>d h. res = Response (RequestsGet (make_endpoint_url c path @ ''?'') d h kwargs)"
    if k: "keeps_url add_auth" "keeps_method add_auth"
      and g: "get parse_query add_auth c path query headers kwargs = Inr res"
  proof -
    let ?req = "\<lparr> req_method = ''GET'', req_url = make_endpoint_url c path @ ''?'',
                 req_data = [], req_headers = (case headers of None \<Rightarrow> [] | Some h \<Rightarrow> h) \<rparr>"
    from g a obtain sv signed where
      s: "add_auth (select_signer c sv) ?req = Inr signed" and r: "send signed kwargs = Inr res"
      by (auto simp: get_def request_def split: sum.splits if_splits)
    from k s have "req_url signed = make_endpoint_url c path @ ''?''" "req_method signed = ''GET''"
      by (auto simp: keeps_url_def keeps_method_def)
    then show ?thesis using r by (auto simp: send_def split: if_splits)
  qed
  from a b c show ?thesis by blast
qed

theorem get_empty_query_bare_question_mark_witness:
  "keeps_url header_signer \<and> keeps_method header_signer
   \<and> build_request (init NoFile [] ''computing'' None None None True PNone PNone) ''GET'' None
        None None =
       Inr \<lparr> req_method = ''GET'', req_url = ''https://computing.api.cloud.nifty.com/?'',
             req_data = [], req_headers = [] \<rparr>
   \<and> get py_parse_query header_signer
        (init NoFile [] ''computing'' None None None True PNone PNone) None None None [] =
       Inr (Response (RequestsGet ''https://computing.api.cloud.nifty.com/?'' []
              [(''X-Signed-By'', ''NifCloudSigV2Auth'')] []))"
proof -
  let ?c = "init NoFile [] ''computing'' None None None True PNone PNone"
  have u: "make_endpoint_url ?c None @ ''?'' = ''https://computing.api.cloud.nifty.com/?''"
    by code_simp
  have g: "get py_parse_query header_signer ?c None None None [] =
             Inr (Response (RequestsGet ''https://computing.api.cloud.nifty.com/?'' []
                    [(''X-Signed-By'', ''NifCloudSigV2Auth'')] []))"
    by code_simp
  have "build_request ?c ''GET'' None None None =
          Inr \<lparr> req_method = ''GET'', req_url = make_endpoint_url ?c None @ ''?'',
                req_data = [], req_headers = [] \<rparr>"
    using get_empty_query_bare_question_mark [of None ?c None None] by simp
  then show ?thesis
    unfolding u using g header_signer_keeps_url header_signer_keeps_method by simp
qed

text \<open>
  C10. For a GET with a query dictionary, every key and the string of its value stand in
  the URL as \<open>key=value\<close>, character by character as they are, whatever characters they
  contain: nothing is percent-encoded.
\<close>

theorem get_query_not_percent_encoded:
  assumes "is_dict q" and "(k, v) \<in> set q"
  shows "\<exists>req pre post.
           build_request c ''GET'' path (Some q) headers = Inr req \<and>
           req_url req = make_endpoint_url c path @ ''?'' @ pre @ k @ ''='' @ py_str v @ post"
proof -
  have "(k, v) \<in> set (sort_key fst q)" using assms(2) by simp
  then have "k @ ''='' @ py_str v \<in> set (map (\<lambda>(k, v). k @ ''='' @ py_str v) (sort_key fst q))"
    by force
  then obtain pre post where
    "str_join ''&'' (map (\<lambda>(k, v). k @ ''='' @ py_str v) (sort_key fst q)) =
       pre @ (k @ ''='' @ py_str v) @ post"
    using str_join_member by blast
  then show ?thesis
    using build_request_get [OF assms(1), of c path headers] by auto
qed

text \<open>A key with \<open>&\<close> and a value with \<open>=\<close> and \<open>?\<close> appear in the URL as they are.\<close>

theorem get_query_not_percent_encoded_witness:
  "is_dict [(''a&b'', PStr ''x=y?z'')] \<and> (''a&b'', PStr ''x=y?z'') \<in> set [(''a&b'', PStr ''x=y?z'')]
   \<and> build_request (init NoFile [] ''computing'' None None None True PNone PNone) ''GET'' None
        (Some [(''a&b'', PStr ''x=y?z'')]) None =
       Inr \<lparr> req_method = ''GET'',
             req_url = ''https://computing.api.cloud.nifty.com/?a&b=x=y?z'',
             req_data = [], req_headers = [] \<rparr>"
proof -
  have d: "is_dict [(''a&b'', PStr ''x=y?z'')]" by (simp add: is_dict_def)
  have m: "(''a&b'', PStr ''x=y?z'') \<in> set [(''a&b'', PStr ''x=y?z'')]" by simp
  have b: "build_request (init NoFile [] ''computing'' None None None True PNone PNone) ''GET'' None
        (Some [(''a&b'', PStr ''x=y?z'')]) None =
       Inr \<lparr> req_method = ''GET'',
             req_url = ''https://computing.api.cloud.nifty.com/?a&b=x=y?z'',
             req_data = [], req_headers = [] \<rparr>"
    by code_simp
  from get_query_not_percent_encoded [OF d m,
      of "init NoFile [] ''computing'' None None None True PNone PNone" None None]
  obtain req pre post where
    "build_request (init NoFile [] ''computing'' None None None True PNone PNone) ''GET'' None
        (Some [(''a&b'', PStr ''x=y?z'')]) None = Inr req" by blast
  then show ?thesis using d m b by simp
qed

section \<open>Methods other than GET and POST\<close>




section \<open>Credentials\<close>

text \<open>
  C5, as the code has it. When neither the configuration file nor the environment nor
  the arguments give an access key or a secret key, no \<open>ConfigurationError\<close> is raised:
  the constructor returns a client with credentials whose two fields are \<open>None\<close>, and a
  request of that client goes on as any other, with the signer of the resolved version
  constructed from these credentials and run on the request; the only exceptions are
  those of the URL parser, of the signer and of the transport call.
\<close>

theorem missing_credentials_reach_signer:
  assumes "attr_from_file cf ''ACCESS_KEY_ID'' = None"
    and "attr_from_file cf ''SECRET_ACCESS_KEY'' = None"
    and "map_of env ''ACCESS_KEY_ID'' = None"
    and "map_of env ''SECRET_ACCESS_KEY'' = None"
  shows "CREDENTIALS (init cf env sn rn av bp ssl PNone PNone) = Credentials PNone PNone
         \<and> request parse_query add_auth (init cf env sn rn av bp ssl PNone PNone)
              method path query headers kwargs =
             (case build_request (init cf env sn rn av bp ssl PNone PNone)
                     method path query headers of
                Inl e \<Rightarrow> Inl e
              | Inr req \<Rightarrow>
                  (case get_signature_version parse_query
                          (init cf env sn rn av bp ssl PNone PNone) req (req_url req) of
                     Inl e \<Rightarrow> Inl e
                   | Inr sv \<Rightarrow>
                       (case add_auth
                               (if sv = PStr ''4''
                                then NifCloudSigV4Auth (Credentials PNone PNone) sn rn
                                else if sv = PStr ''1''
                                then NifCloudSigV1Auth (Credentials PNone PNone)
                                else if sv = PStr ''0''
                                then NifCloudSigV0Auth (Credentials PNone PNone)
                                else NifCloudSigV2Auth (Credentials PNone PNone))
                               req of
                          Inl e \<Rightarrow> Inl (PyException e)
                        | Inr signed \<Rightarrow> send signed kwargs)))"
proof -
  let ?c = "init cf env sn rn av bp ssl PNone PNone"
  have cr: "CREDENTIALS ?c = Credentials PNone PNone"
    using assms by (simp add: init_def attr_from_arg_def getenv_def)
  have sn: "SERVICE_NAME ?c = sn" and rn: "REGION_NAME ?c = rn"
    by (simp_all add: init_def Let_def)
  have s: "select_signer ?c sv =
             (if sv = PStr ''4'' then NifCloudSigV4Auth (Credentials PNone PNone) sn rn
              else if sv = PStr ''1'' then NifCloudSigV1Auth (Credentials PNone PNone)
              else if sv = PStr ''0'' then NifCloudSigV0Auth (Credentials PNone PNone)
              else NifCloudSigV2Auth (Credentials PNone PNone))" for sv
    unfolding select_signer_def cr sn rn by simp
  show ?thesis
    unfolding request_def s using cr by simp
qed

text \<open>
  With a file that has other keys only and an environment without the two variables, a
  POST is signed by the V2 signer made from the credentials \<open>None\<close>.
\<close>

theorem missing_credentials_reach_signer_witness:
  "attr_from_file (YamlMap [(''REGION'', PStr ''jp-east-1'')]) ''ACCESS_KEY_ID'' = None
   \<and> attr_from_file (YamlMap [(''REGION'', PStr ''jp-east-1'')]) ''SECRET_ACCESS_KEY'' = None
   \<and> map_of [(''HOME'', ''/root'')] ''ACCESS_KEY_ID'' = None
   \<and> map_of [(''HOME'', ''/root'')] ''SECRET_ACCESS_KEY'' = None
   \<and> CREDENTIALS (init (YamlMap [(''REGION'', PStr ''jp-east-1'')]) [(''HOME'', ''/root'')]
        ''computing'' None None None True PNone PNone) = Credentials PNone PNone
   \<and> request py_parse_query header_signer
        (init (YamlMap [(''REGION'', PStr ''jp-east-1'')]) [(''HOME'', ''/root'')]
           ''computing'' None None None True PNone PNone)
        ''POST'' None None None [] =
       Inr (Response (RequestsPost ''https://computing.api.cloud.nifty.com/'' []
              [(''X-Signed-By'', ''NifCloudSigV2Auth'')] []))"
proof -
  have f1: "attr_from_file (YamlMap [(''REGION'', PStr ''jp-east-1'')]) ''ACCESS_KEY_ID'' = None"
    and f2: "attr_from_file (YamlMap [(''REGION'', PStr ''jp-east-1'')]) ''SECRET_ACCESS_KEY'' = None"
    and e1: "map_of [(''HOME'', ''/root'')] ''ACCESS_KEY_ID'' = None"
    and e2: "map_of [(''HOME'', ''/root'')] ''SECRET_ACCESS_KEY'' = None"
    by simp_all
  have r: "request py_parse_query header_signer
        (init (YamlMap [(''REGION'', PStr ''jp-east-1'')]) [(''HOME'', ''/root'')]
           ''computing'' None None None True PNone PNone)
        ''POST'' None None None [] =
       Inr (Response (RequestsPost ''https://computing.api.cloud.nifty.com/'' []
              [(''X-Signed-By'', ''NifCloudSigV2Auth'')] []))"
    by code_simp
  show ?thesis
    using missing_credentials_reach_signer [OF f1 f2 e1 e2,
        of "''computing''" None None None True py_parse_query header_signer "''POST''"
           None None None "[]"]
      f1 f2 e1 e2 r
    by simp
qed

text \<open>
  The claim C5 as it is stated fails: with no file, no environment variable and no
  argument, the client is constructed with credentials \<open>None\<close>, which go to the signer
  of the resolved version; with a signer that accepts them, here \<open>header_signer\<close>, the
  first request ends in the transport call. No \<open>ConfigurationError\<close> is raised.
\<close>

theorem missing_credentials_counterexample:
  "CREDENTIALS (init NoFile [] ''computing'' None None None True PNone PNone) =
     Credentials PNone PNone
   \<and> select_signer (init NoFile [] ''computing'' None None None True PNone PNone) (PStr ''2'') =
     NifCloudSigV2Auth (Credentials PNone PNone)
   \<and> get py_parse_query header_signer
       (init NoFile [] ''computing'' None None None True PNone PNone)
       None (Some [(''Action'', PStr ''DescribeInstances'')]) None [] =
     Inr (Response (RequestsGet
            ''https://computing.api.cloud.nifty.com/?Action=DescribeInstances'' []
            [(''X-Signed-By'', ''NifCloudSigV2Auth'')] []))
   \<and> get py_parse_query header_signer
       (init NoFile [] ''computing'' None None None True PNone PNone)
       None (Some [(''Action'', PStr ''DescribeInstances'')]) None [] \<noteq> Inl ConfigurationError"
proof -
  have c: "CREDENTIALS (init NoFile [] ''computing'' None None None True PNone PNone) =
     Credentials PNone PNone"
    by code_simp
  have s: "select_signer (init NoFile [] ''computing'' None None None True PNone PNone)
             (PStr ''2'') = NifCloudSigV2Auth (Credentials PNone PNone)"
    by code_simp
  have g: "get py_parse_query header_signer
       (init NoFile [] ''computing'' None None None True PNone PNone)
       None (Some [(''Action'', PStr ''DescribeInstances'')]) None [] =
     Inr (Response (RequestsGet
            ''https://computing.api.cloud.nifty.com/?Action=DescribeInstances'' []
            [(''X-Signed-By'', ''NifCloudSigV2Auth'')] []))"
    by code_simp
  show ?thesis using c s g by simp
qed

text \<open>
  C8. The access key and the secret key of the client are the argument when it is not
  \<open>None\<close>; else the environment variable when it is set; else the value in the
  configuration file when it has one; else \<open>None\<close>. The credentials are made of these
  two values.
\<close>

theorem credentials_precedence:
  "ACCESS_KEY_ID (init cf env sn rn av bp ssl aki sak) =
     (if aki \<noteq> PNone then aki
      else case map_of env ''ACCESS_KEY_ID'' of
             Some e \<Rightarrow> PStr e
           | None \<Rightarrow> (case attr_from_file cf ''ACCESS_KEY_ID'' of Some v \<Rightarrow> v | None \<Rightarrow> PNone))
   \<and> SECRET_ACCESS_KEY (init cf env sn rn av bp ssl aki sak) =
     (if sak \<noteq> PNone then sak
      else case map_of env ''SECRET_ACCESS_KEY'' of
             Some e \<Rightarrow> PStr e
           | None \<Rightarrow> (case attr_from_file cf ''SECRET_ACCESS_KEY'' of Some v \<Rightarrow> v | None \<Rightarrow> PNone))
   \<and> CREDENTIALS (init cf env sn rn av bp ssl aki sak) =
       Credentials (ACCESS_KEY_ID (init cf env sn rn av bp ssl aki sak))
                   (SECRET_ACCESS_KEY (init cf env sn rn av bp ssl aki sak))"
  by (cases "attr_from_file cf ''ACCESS_KEY_ID''"; cases "attr_from_file cf ''SECRET_ACCESS_KEY''")
     (simp_all add: init_def attr_from_arg_def getenv_def Let_def split: option.splits)

text \<open>
  With both keys in the file, the access key also in the environment and the secret key
  also as an argument: the environment wins for the access key, the argument for the
  secret key. With the file alone, the file's values are taken.
\<close>

theorem credentials_precedence_witness:
  "CREDENTIALS (init
      (YamlMap [(''ACCESS_KEY_ID'', PStr ''file-id''), (''SECRET_ACCESS_KEY'', PStr ''file-secret'')])
      [(''ACCESS_KEY_ID'', ''env-id'')] ''computing'' None None None True
      PNone (PStr ''arg-secret'')) = Credentials (PStr ''env-id'') (PStr ''arg-secret'')
   \<and> CREDENTIALS (init
      (YamlMap [(''ACCESS_KEY_ID'', PStr ''file-id''), (''SECRET_ACCESS_KEY'', PStr ''file-secret'')])
      [] ''computing'' None None None True PNone PNone) =
     Credentials (PStr ''file-id'') (PStr ''file-secret'')"
  by (simp add: credentials_precedence)

section \<open>The endpoint URL\<close>

text \<open>
  C6. The endpoint URL is the protocol (\<open>https\<close> when SSL is used, else \<open>http\<close>), \<open>://\<close>,
  the service name and the region name each followed by a dot when present, the API
  domain, \<open>/\<close>, and the base path, the API version and the path, in this order, each
  followed by \<open>/\<close> when present; a component that is absent or empty adds nothing. For
  the service \<open>computing\<close> with SSL and nothing else it is
  \<open>https://computing.api.cloud.nifty.com/\<close>.
\<close>

theorem make_endpoint_url_components:
  "make_endpoint_url c path =
     endpoint_spec (USE_SSL c) (SERVICE_NAME c) (REGION_NAME c) (API_VERSION c) (BASE_PATH c) path
   \<and> make_endpoint_url
       (c\<lparr> SERVICE_NAME := ''computing'', REGION_NAME := None, API_VERSION := None,
            BASE_PATH := None, USE_SSL := True \<rparr>) None = ''https://computing.api.cloud.nifty.com/''"
  by (simp add: make_endpoint_url_def endpoint_spec_def API_DOMAIN_def split: option.splits)

theorem make_endpoint_url_components_witness:
  "make_endpoint_url
     (init NoFile [] ''computing'' (Some ''jp-east-1'') (Some ''v1'') (Some ''api'') False
        PNone PNone)
     (Some ''DescribeInstances'') =
   ''http://computing.jp-east-1.api.cloud.nifty.com/api/v1/DescribeInstances/''"
proof -
  have "endpoint_spec False ''computing'' (Some ''jp-east-1'') (Some ''v1'') (Some ''api'')
          (Some ''DescribeInstances'') =
        ''http://computing.jp-east-1.api.cloud.nifty.com/api/v1/DescribeInstances/''"
    by code_simp
  then show ?thesis
    using make_endpoint_url_components
      [of "init NoFile [] ''computing'' (Some ''jp-east-1'') (Some ''v1'') (Some ''api'') False PNone PNone"
          "Some ''DescribeInstances''"]
    by (simp add: init_def Let_def)
qed

end
